theory Spec2Isabelle
  imports Main
begin

section \<open>Soft delete: the flag type and the three statement hooks\<close>

text \<open>
  A shallow embedding of \<^verbatim>\<open>soft_delete.go\<close>. The file defines the flag type
  \<^verbatim>\<open>DeletedAt\<close> with its storage conversion (\<^verbatim>\<open>Value\<close>, \<^verbatim>\<open>Scan\<close>)
  and three clause types whose \<^verbatim>\<open>ModifyStatement\<close> methods rewrite a statement
  of the host framework (gorm) while it is being built.

  The functions of the host that only rearrange clauses (\<^verbatim>\<open>AddClause\<close>,
  \<^verbatim>\<open>AddClauseIfNotExists\<close>, \<^verbatim>\<open>MergeClause\<close>, \<^verbatim>\<open>clause.And\<close>) are
  modelled as gorm defines them; the ones that reflect on Go objects or generate SQL are
  parameters.

  Pointers that the host always supplies (the statement, its \<^verbatim>\<open>DB\<close>, the clause's
  \<^verbatim>\<open>Field\<close>, the receiver of \<^verbatim>\<open>Scan\<close>) are modelled as plain values; the
  ones the code tests against \<^verbatim>\<open>nil\<close> (\<^verbatim>\<open>DeleteAtField\<close>,
  \<^verbatim>\<open>stmt.Schema\<close>, \<^verbatim>\<open>stmt.Model\<close>) keep their nil case.
\<close>

subsection \<open>Go values\<close>

text \<open>
  The dynamic values of \<^verbatim>\<open>interface{}\<close> that occur: \<^verbatim>\<open>nil\<close>, a
  \<^verbatim>\<open>bool\<close>, and, for stored values and primary keys, integers, strings and
  rows of values.
\<close>

datatype iface = Nil | Bool bool | Int64 int | String string | Slice "iface list"

datatype error = Error string

type_synonym DeletedAt = bool

text \<open>
  The package variables \<^verbatim>\<open>FlagDeleted\<close> and \<^verbatim>\<open>FlagActived\<close>, with the
  values they are initialised to; the package never assigns to them.
\<close>

definition FlagDeleted :: bool where
  "FlagDeleted = True"

definition FlagActived :: bool where
  "FlagActived = False"

subsection \<open>Storage conversion\<close>

text \<open>\<^verbatim>\<open>func (b DeletedAt) Value() (driver.Value, error)\<close>\<close>

definition Value :: "DeletedAt \<Rightarrow> iface \<times> error option" where
  "Value b = (if b then (Bool True, None) else (Bool False, None))"

text \<open>
  \<^verbatim>\<open>func (b *DeletedAt) Scan(value interface{}) error\<close>: the first argument is
  the flag the receiver points to before the call; the result is the flag after the
  call and the returned error. The type assertion \<^verbatim>\<open>value.(bool)\<close> succeeds
  exactly on \<open>Bool\<close>.
\<close>

fun Scan :: "DeletedAt \<Rightarrow> iface \<Rightarrow> DeletedAt \<times> error option" where
  "Scan b (Bool boolVal) = (if boolVal then (True, None) else (False, None))"
| "Scan b v = (b, Some (Error ''Invalid data type for DeletedAt''))"

subsection \<open>Clauses and expressions of the host\<close>

text \<open>
  \<^verbatim>\<open>clause.Column{Table, Name}\<close>, \<^verbatim>\<open>clause.Assignment{Column, Value}\<close>,
  \<^verbatim>\<open>clause.Table{Name, Alias, Raw}\<close>. What \<^verbatim>\<open>schema.ToQueryValues\<close>
  returns as column is one column or a list of columns.
\<close>

datatype column = Column string string

datatype colref = OneColumn column | Columns "column list"

datatype assignment = Assignment column iface

datatype table = Table string string bool

text \<open>
  The values of \<^verbatim>\<open>clause.Expression\<close>: \<open>NilExpr\<close> is the nil interface,
  \<open>Expr\<close> stands for any expression the code does not look into (raw SQL).
  \<open>Where\<close>, \<open>Set\<close> and \<open>Update\<close> are also the \<^verbatim>\<open>clause.Interface\<close>
  values the code hands to \<^verbatim>\<open>AddClause\<close>.
\<close>

datatype expression =
    NilExpr
  | Eq column iface
  | IN colref "iface list"
  | AndConditions "expression list"
  | OrConditions "expression list"
  | Expr string
  | Where "expression list"
  | Set "assignment list"
  | Update string table

text \<open>\<^verbatim>\<open>clause.Clause\<close> (its \<^verbatim>\<open>Builder\<close> function is left out).\<close>

record Clause =
  Name :: string
  BeforeExpression :: expression
  AfterNameExpression :: expression
  AfterExpression :: expression
  Expression :: expression

text \<open>The zero value \<^verbatim>\<open>clause.Clause{}\<close>.\<close>

definition zero_Clause :: Clause where
  "zero_Clause = \<lparr>Name = [], BeforeExpression = NilExpr, AfterNameExpression = NilExpr,
     AfterExpression = NilExpr, Expression = NilExpr\<rparr>"

definition CurrentTable :: string where
  "CurrentTable = ''~~~ct~~~''"

text \<open>
  \<^verbatim>\<open>clause.And\<close> of the host: nil for no expression, the expression itself for
  a single one that is not an \<^verbatim>\<open>OrConditions\<close>, and an \<^verbatim>\<open>AndConditions\<close>
  otherwise.
\<close>

fun And :: "expression list \<Rightarrow> expression" where
  "And [] = NilExpr"
| "And [e] = (case e of OrConditions es \<Rightarrow> AndConditions [e] | _ \<Rightarrow> e)"
| "And exprs = AndConditions exprs"

text \<open>The \<^verbatim>\<open>Name()\<close> of the clause interfaces the code adds.\<close>

fun clause_Name :: "expression \<Rightarrow> string" where
  "clause_Name (Where exprs) = ''WHERE''"
| "clause_Name (Set as) = ''SET''"
| "clause_Name (Update m t) = ''UPDATE''"
| "clause_Name v = []"

text \<open>
  \<^verbatim>\<open>MergeClause\<close> of the host's \<^verbatim>\<open>clause.Where\<close> (the new expressions go
  after the ones of an existing \<^verbatim>\<open>Where\<close>), \<^verbatim>\<open>clause.Set\<close> (replaces)
  and \<^verbatim>\<open>clause.Update\<close> (an empty modifier or table is taken from an existing
  \<^verbatim>\<open>Update\<close>).
\<close>

fun MergeClause :: "expression \<Rightarrow> Clause \<Rightarrow> Clause" where
  "MergeClause (Where exprs) c =
     (case Expression c of
        Where w \<Rightarrow> c\<lparr>Expression := Where (w @ exprs)\<rparr>
      | _ \<Rightarrow> c\<lparr>Expression := Where exprs\<rparr>)"
| "MergeClause (Set as) c = c\<lparr>Expression := Set as\<rparr>"
| "MergeClause (Update m t) c =
     (case Expression c of
        Update m' t' \<Rightarrow>
          c\<lparr>Expression := Update (if m = [] then m' else m)
                 (case t of Table n a r \<Rightarrow> if n = [] then t' else t)\<rparr>
      | _ \<Rightarrow> c\<lparr>Expression := Update m t\<rparr>)"
| "MergeClause v c = c"

subsection \<open>Schema, reflection and the statement\<close>

text \<open>\<^verbatim>\<open>schema.Field\<close> and \<^verbatim>\<open>schema.Schema\<close>, the fields the code reads.\<close>

record Field =
  DefaultValue :: string
  DBName :: string
  GORMDataType :: string

record Schema =
  PrimaryFields :: "Field list"
  PrimaryFieldDBNames :: "string list"

text \<open>
  What \<^verbatim>\<open>stmt.Dest\<close> and \<^verbatim>\<open>stmt.Model\<close> hold: nil or a reference to an
  object; \<^verbatim>\<open>!=\<close> on them compares the references. A \<^verbatim>\<open>reflect.Value\<close>
  is the object it reflects and its addressability flag.
\<close>

datatype obj = NilObj | Ref nat

record reflect_Value =
  Object :: obj
  CanAddr :: bool

definition reflect_ValueOf :: "obj \<Rightarrow> reflect_Value" where
  "reflect_ValueOf x = \<lparr>Object = x, CanAddr = False\<rparr>"

text \<open>
  \<^verbatim>\<open>gorm.Statement\<close>. \<open>Unscoped\<close> is \<^verbatim>\<open>stmt.Statement.Unscoped\<close>,
  \<open>SQL\<close> the text written to \<^verbatim>\<open>stmt.SQL\<close> so far. \<open>SetColumnCalls\<close> lists the
  calls of \<^verbatim>\<open>stmt.SetColumn\<close> made on the statement, in order, as
  (name, value, fromCallbacks); what the host does with a call (it writes into the
  destination object or reports an error) is not part of the model.
\<close>

record statement =
  Clauses :: "string \<rightharpoonup> Clause"
  Unscoped :: bool
  SQL :: string
  Schema :: "Schema option"
  Table :: string
  ReflectValue :: reflect_Value
  Dest :: obj
  Model :: obj
  SetColumnCalls :: "(string \<times> iface \<times> bool) list"

text \<open>
  The parts of the host that depend on reflection, on its configuration or on SQL
  generation are parameters of the model: \<^verbatim>\<open>schema.GetIdentityFieldValuesMap\<close>
  (its second result; it reads the reflected object as the \<^verbatim>\<open>SetColumn\<close> calls
  so far left it), \<^verbatim>\<open>schema.ToQueryValues\<close>, the clause names
  \<^verbatim>\<open>stmt.DB.Callback().Update().Clauses\<close> and \<^verbatim>\<open>stmt.Build\<close>.
\<close>

record host =
  GetIdentityFieldValuesMap ::
    "(string \<times> iface \<times> bool) list \<Rightarrow> reflect_Value \<Rightarrow> Field list \<Rightarrow> iface list list"
  ToQueryValues :: "string \<Rightarrow> string list \<Rightarrow> iface list list \<Rightarrow> colref \<times> iface list"
  Callback_Update_Clauses :: "string list"
  Build :: "string list \<Rightarrow> statement \<Rightarrow> statement"

text \<open>
  \<^verbatim>\<open>stmt.AddClause(v)\<close> of the host, for a \<open>v\<close> that is no statement modifier:
  the clause stored under the name of \<open>v\<close> (the zero clause when there is none) gets
  that name and is merged with \<open>v\<close>.
\<close>

definition AddClause :: "expression \<Rightarrow> statement \<Rightarrow> statement" where
  "AddClause v stmt =
     (let name = clause_Name v;
          c = (case Clauses stmt name of Some c \<Rightarrow> c | None \<Rightarrow> zero_Clause);
          c = c\<lparr>Name := name\<rparr>;
          c = MergeClause v c
      in stmt\<lparr>Clauses := (Clauses stmt)(name \<mapsto> c)\<rparr>)"

text \<open>\<^verbatim>\<open>stmt.AddClauseIfNotExists(v)\<close> of the host.\<close>

definition AddClauseIfNotExists :: "expression \<Rightarrow> statement \<Rightarrow> statement" where
  "AddClauseIfNotExists v stmt =
     (case Clauses stmt (clause_Name v) of
        None \<Rightarrow> AddClause v stmt
      | Some c \<Rightarrow> if Expression c = NilExpr then AddClause v stmt else stmt)"

text \<open>
  \<^verbatim>\<open>stmt.SetColumn(name, value, fromCallbacks)\<close> of the host: the call is added
  to the list of calls.
\<close>

definition SetColumn :: "string \<Rightarrow> iface \<Rightarrow> bool \<Rightarrow> statement \<Rightarrow> statement" where
  "SetColumn name v fromCallbacks stmt =
     stmt\<lparr>SetColumnCalls := SetColumnCalls stmt @ [(name, v, fromCallbacks)]\<rparr>"

subsection \<open>The query filter\<close>

record SoftDeleteQueryClause =
  Field :: Field

text \<open>
  \<^verbatim>\<open>orCond, ok := expr.(clause.OrConditions); ok && len(orCond.Exprs) == 1\<close>
\<close>

fun is_single_or :: "expression \<Rightarrow> bool" where
  "is_single_or (OrConditions exprs) = (length exprs = 1)"
| "is_single_or expr = False"

text \<open>
  The loop over \<^verbatim>\<open>where.Exprs\<close>: at the first single-or expression the whole
  list is replaced by \<^verbatim>\<open>[]clause.Expression{clause.And(where.Exprs...)}\<close> and the
  loop is left; \<open>None\<close> when the loop ends without a match.
\<close>

fun or_loop :: "expression list \<Rightarrow> expression list \<Rightarrow> expression list option" where
  "or_loop exprs [] = None"
| "or_loop exprs (expr # rest) =
     (if is_single_or expr then Some [And exprs] else or_loop exprs rest)"

text \<open>The block on the existing WHERE clause (lines 63 to 74).\<close>

definition wrap_where :: "statement \<Rightarrow> statement" where
  "wrap_where stmt =
     (case Clauses stmt ''WHERE'' of
        None \<Rightarrow> stmt
      | Some c \<Rightarrow>
          (case Expression c of
             Where exprs \<Rightarrow>
               if length exprs \<ge> 1 then
                 (case or_loop exprs exprs of
                    None \<Rightarrow> stmt
                  | Some exprs' \<Rightarrow>
                      stmt\<lparr>Clauses := (Clauses stmt)(''WHERE'' \<mapsto> c\<lparr>Expression := Where exprs'\<rparr>)\<rparr>)
               else stmt
           | _ \<Rightarrow> stmt))"

definition SoftDeleteQueryClause_ModifyStatement ::
    "SoftDeleteQueryClause \<Rightarrow> statement \<Rightarrow> statement" where
  "SoftDeleteQueryClause_ModifyStatement sd stmt =
     (if Clauses stmt ''soft_delete_enabled'' = None \<and> \<not> Unscoped stmt then
        let stmt = wrap_where stmt;
            stmt =
              (if DefaultValue (SoftDeleteQueryClause.Field sd) = ''null'' then
                 AddClause (Where [Eq (Column CurrentTable (DBName (SoftDeleteQueryClause.Field sd))) Nil]) stmt
               else
                 AddClause (Where [Eq (Column CurrentTable (DBName (SoftDeleteQueryClause.Field sd)))
                                      (Bool FlagActived)]) stmt)
        in stmt\<lparr>Clauses := (Clauses stmt)(''soft_delete_enabled'' \<mapsto> zero_Clause)\<rparr>
      else stmt)"

subsection \<open>The update filter\<close>

record SoftDeleteUpdateClause =
  Field :: Field

definition SoftDeleteUpdateClause_ModifyStatement ::
    "SoftDeleteUpdateClause \<Rightarrow> statement \<Rightarrow> statement" where
  "SoftDeleteUpdateClause_ModifyStatement sd stmt =
     (if length (SQL stmt) = 0 \<and> \<not> Unscoped stmt then
        SoftDeleteQueryClause_ModifyStatement
          \<lparr>SoftDeleteQueryClause.Field = SoftDeleteUpdateClause.Field sd\<rparr> stmt
      else stmt)"

subsection \<open>The delete rewriter\<close>

record SoftDeleteDeleteClause =
  Field :: Field
  Flag :: bool
  DataType :: string
  DeleteAtField :: "Field option"

text \<open>
  Lines 140 to 155: the assignment list, the two \<^verbatim>\<open>SetColumn\<close> calls and the
  SET clause.
\<close>

definition Delete_assign :: "SoftDeleteDeleteClause \<Rightarrow> statement \<Rightarrow> statement" where
  "Delete_assign sd stmt =
     (let (set, stmt) =
            (case DeleteAtField sd of
               None \<Rightarrow> ([], stmt)
             | Some deleteAtField \<Rightarrow>
                 (let v = (if GORMDataType deleteAtField = ''bool'' then Bool True else Nil)
                  in ([] @ [Assignment (Column [] (DBName deleteAtField)) v],
                      SetColumn (DBName deleteAtField) v True stmt)));
          set = [Assignment (Column [] (DBName (SoftDeleteDeleteClause.Field sd))) (Bool FlagDeleted)] @ set;
          stmt = SetColumn (DBName (SoftDeleteDeleteClause.Field sd)) (Bool FlagDeleted) True stmt
      in AddClause (Set set) stmt)"

text \<open>
  The primary-key predicate of one reflected source: \<^verbatim>\<open>GetIdentityFieldValuesMap\<close>,
  \<^verbatim>\<open>ToQueryValues\<close>, and the IN clause when \<^verbatim>\<open>len(values) > 0\<close>.
\<close>

definition add_identity :: "host \<Rightarrow> Schema \<Rightarrow> reflect_Value \<Rightarrow> statement \<Rightarrow> statement" where
  "add_identity h sc rv stmt =
     (let queryValues = GetIdentityFieldValuesMap h (SetColumnCalls stmt) rv (PrimaryFields sc);
          (column, values) = ToQueryValues h (Table stmt) (PrimaryFieldDBNames sc) queryValues
      in if length values > 0 then AddClause (Where [IN column values]) stmt else stmt)"

text \<open>Lines 157 to 173.\<close>

definition Delete_identity :: "host \<Rightarrow> statement \<Rightarrow> statement" where
  "Delete_identity h stmt =
     (case Schema stmt of
        None \<Rightarrow> stmt
      | Some sc \<Rightarrow>
          (let stmt1 = add_identity h sc (ReflectValue stmt) stmt
           in if CanAddr (ReflectValue stmt1) \<and> Dest stmt1 \<noteq> Model stmt1 \<and> Model stmt1 \<noteq> NilObj
              then add_identity h sc (reflect_ValueOf (Model stmt1)) stmt1
              else stmt1))"

text \<open>Lines 140 to 176: the statement that is handed to \<^verbatim>\<open>stmt.Build\<close>.\<close>

definition Delete_rewrite :: "host \<Rightarrow> SoftDeleteDeleteClause \<Rightarrow> statement \<Rightarrow> statement" where
  "Delete_rewrite h sd stmt =
     AddClauseIfNotExists (Update [] (table.Table [] [] False))
       (SoftDeleteQueryClause_ModifyStatement
          \<lparr>SoftDeleteQueryClause.Field = SoftDeleteDeleteClause.Field sd\<rparr>
          (Delete_identity h (Delete_assign sd stmt)))"

definition SoftDeleteDeleteClause_ModifyStatement ::
    "host \<Rightarrow> SoftDeleteDeleteClause \<Rightarrow> statement \<Rightarrow> statement" where
  "SoftDeleteDeleteClause_ModifyStatement h sd stmt =
     (if length (SQL stmt) = 0 \<and> \<not> Unscoped stmt then
        Build h (Callback_Update_Clauses h) (Delete_rewrite h sd stmt)
      else stmt)"

subsection \<open>The hook constructors\<close>

definition getTimeType :: string where
  "getTimeType = ''bool''"

definition QueryClauses :: "DeletedAt \<Rightarrow> Field \<Rightarrow> SoftDeleteQueryClause list" where
  "QueryClauses b f = [\<lparr>SoftDeleteQueryClause.Field = f\<rparr>]"

definition DeleteClauses :: "DeletedAt \<Rightarrow> Field \<Rightarrow> SoftDeleteDeleteClause list" where
  "DeleteClauses b f =
     [\<lparr>SoftDeleteDeleteClause.Field = f, Flag = False, DataType = getTimeType,
       DeleteAtField = None\<rparr>]"

definition UpdateClauses :: "DeletedAt \<Rightarrow> Field \<Rightarrow> SoftDeleteUpdateClause list" where
  "UpdateClauses b f = [\<lparr>SoftDeleteUpdateClause.Field = f\<rparr>]"

subsection \<open>Reading a statement\<close>

text \<open>The top-level expressions of the statement's WHERE clause.\<close>

definition where_exprs :: "statement \<Rightarrow> expression list" where
  "where_exprs stmt =
     (case Clauses stmt ''WHERE'' of
        None \<Rightarrow> []
      | Some c \<Rightarrow> (case Expression c of Where exprs \<Rightarrow> exprs | _ \<Rightarrow> []))"

text \<open>
  The condition the query filter adds for a field (lines 76 to 84): the field is nil
  when its default value is \<^verbatim>\<open>"null"\<close>, and equals \<open>FlagActived\<close> otherwise.
\<close>

definition flag_condition :: "Field \<Rightarrow> expression" where
  "flag_condition f =
     Eq (Column CurrentTable (DBName f))
        (if DefaultValue f = ''null'' then Nil else Bool FlagActived)"

text \<open>
  The IN predicate of one reflected source, in the words of the specification: the
  identity values of the source under the statement's schema, as one IN predicate when
  there are any, and no predicate when none resolve (or there is no schema to resolve
  them with).
\<close>

definition identity_predicate :: "host \<Rightarrow> statement \<Rightarrow> reflect_Value \<Rightarrow> expression list" where
  "identity_predicate h stmt rv =
     (case Schema stmt of
        None \<Rightarrow> []
      | Some sc \<Rightarrow>
          (case ToQueryValues h (Table stmt) (PrimaryFieldDBNames sc)
                  (GetIdentityFieldValuesMap h (SetColumnCalls stmt) rv (PrimaryFields sc)) of
             (column, values) \<Rightarrow> if values = [] then [] else [IN column values]))"

subsection \<open>Example data\<close>

text \<open>
  A table \<^verbatim>\<open>users\<close> with primary key \<^verbatim>\<open>id\<close> and the flag column
  \<^verbatim>\<open>deleted_at\<close>; the record with id 7 is the destination of the statement.
\<close>

definition deleted_at :: Field where
  "deleted_at = \<lparr>DefaultValue = [], DBName = ''deleted_at'', GORMDataType = ''bool''\<rparr>"

definition deleted_at_null :: Field where
  "deleted_at_null = \<lparr>DefaultValue = ''null'', DBName = ''deleted_at'', GORMDataType = ''bool''\<rparr>"



definition users_schema :: Schema where
  "users_schema =
     \<lparr>PrimaryFields = [\<lparr>DefaultValue = [], DBName = ''id'', GORMDataType = ''int''\<rparr>],
      PrimaryFieldDBNames = [''id'']\<rparr>"

definition delete_stmt :: statement where
  "delete_stmt =
     \<lparr>Clauses = Map.empty, Unscoped = False, SQL = [], Schema = Some users_schema,
      Table = ''users'', ReflectValue = \<lparr>Object = Ref 1, CanAddr = True\<rparr>,
      Dest = Ref 1, Model = Ref 1, SetColumnCalls = []\<rparr>"

definition unscoped_stmt :: statement where
  "unscoped_stmt = delete_stmt\<lparr>Unscoped := True\<rparr>"


definition where_stmt :: "expression list \<Rightarrow> statement" where
  "where_stmt exprs =
     delete_stmt\<lparr>Clauses := [''WHERE'' \<mapsto> zero_Clause\<lparr>Name := ''WHERE'', Expression := Where exprs\<rparr>]\<rparr>"

definition query_clause :: SoftDeleteQueryClause where
  "query_clause = \<lparr>SoftDeleteQueryClause.Field = deleted_at\<rparr>"

definition update_clause :: SoftDeleteUpdateClause where
  "update_clause = \<lparr>SoftDeleteUpdateClause.Field = deleted_at\<rparr>"

definition delete_clause :: "Field option \<Rightarrow> SoftDeleteDeleteClause" where
  "delete_clause companion =
     \<lparr>SoftDeleteDeleteClause.Field = deleted_at, Flag = False, DataType = getTimeType,
      DeleteAtField = companion\<rparr>"

text \<open>
  A host for the examples: object 1 has the identity value 7, object 2 the identity
  values 8 and 9, any other object none; a single key column is named after the table.
\<close>

definition example_host :: host where
  "example_host =
     \<lparr>GetIdentityFieldValuesMap =
        (\<lambda>writes rv fields.
           if Object rv = Ref 1 then [[Int64 7]]
           else if Object rv = Ref 2 then [[Int64 8], [Int64 9]]
           else []),
      ToQueryValues = (\<lambda>table keys rows. (OneColumn (Column table (concat keys)), concat rows)),
      Callback_Update_Clauses = [''UPDATE'', ''SET'', ''WHERE''],
      Build = (\<lambda>names stmt. stmt\<lparr>SQL := ''UPDATE''\<rparr>)\<rparr>"

section \<open>Auxiliary facts\<close>

lemma DeleteClauses_no_companion: "map DeleteAtField (DeleteClauses b f) = [None]"
  by (simp add: DeleteClauses_def)

lemma or_loop_eq:
  "or_loop all exprs = (if list_ex is_single_or exprs then Some [And all] else None)"
  by (induction exprs) auto

lemma And_single_or:
  "list_ex is_single_or exprs \<Longrightarrow> And exprs = AndConditions exprs"
proof (cases exprs rule: And.cases)
  case 1
  assume "list_ex is_single_or exprs"
  with 1 show ?thesis by simp
next
  case (2 e)
  assume "list_ex is_single_or exprs"
  with 2 show ?thesis by (cases e) auto
next
  case (3 e e' es)
  then show ?thesis by simp
qed

lemma list_ex_length: "list_ex P xs \<Longrightarrow> Suc 0 \<le> length xs"
  by (cases xs) simp_all

lemma where_exprs_wrap_where:
  "where_exprs (wrap_where stmt) =
     (if list_ex is_single_or (where_exprs stmt) then [AndConditions (where_exprs stmt)]
      else where_exprs stmt)"
  by (auto simp: where_exprs_def wrap_where_def or_loop_eq And_single_or
      dest: list_ex_length split: option.splits expression.splits)


lemma AddClause_Where_Expression:
  "map_option Expression (Clauses (AddClause (Where exprs) stmt) ''WHERE'') =
     Some (Where (where_exprs stmt @ exprs))"
  by (auto simp: AddClause_def where_exprs_def Let_def zero_Clause_def
      split: option.splits expression.splits)

lemma AddClause_other:
  "k \<noteq> clause_Name v \<Longrightarrow> Clauses (AddClause v stmt) k = Clauses stmt k"
  by (simp add: AddClause_def Let_def)

lemma AddClause_frame:
  "Unscoped (AddClause v stmt) = Unscoped stmt"
  "SQL (AddClause v stmt) = SQL stmt"
  "Schema (AddClause v stmt) = Schema stmt"
  "Table (AddClause v stmt) = Table stmt"
  "ReflectValue (AddClause v stmt) = ReflectValue stmt"
  "Dest (AddClause v stmt) = Dest stmt"
  "Model (AddClause v stmt) = Model stmt"
  "SetColumnCalls (AddClause v stmt) = SetColumnCalls stmt"
  by (simp_all add: AddClause_def Let_def)


lemma Query_applied:
  assumes "Clauses stmt ''soft_delete_enabled'' = None" and "\<not> Unscoped stmt"
  shows "SoftDeleteQueryClause_ModifyStatement sd stmt =
     (AddClause (Where [flag_condition (SoftDeleteQueryClause.Field sd)]) (wrap_where stmt))
       \<lparr>Clauses := (Clauses (AddClause (Where [flag_condition (SoftDeleteQueryClause.Field sd)]) (wrap_where stmt)))
          (''soft_delete_enabled'' \<mapsto> zero_Clause)\<rparr>"
  using assms by (simp add: SoftDeleteQueryClause_ModifyStatement_def flag_condition_def Let_def)

lemma Query_skipped:
  "Clauses stmt ''soft_delete_enabled'' \<noteq> None \<or> Unscoped stmt \<Longrightarrow>
     SoftDeleteQueryClause_ModifyStatement sd stmt = stmt"
  by (auto simp add: SoftDeleteQueryClause_ModifyStatement_def)

lemma Query_where:
  assumes "Clauses stmt ''soft_delete_enabled'' = None" and "\<not> Unscoped stmt"
  shows "map_option Expression (Clauses (SoftDeleteQueryClause_ModifyStatement sd stmt) ''WHERE'') =
     Some (Where ((if list_ex is_single_or (where_exprs stmt) then [AndConditions (where_exprs stmt)]
                   else where_exprs stmt) @ [flag_condition (SoftDeleteQueryClause.Field sd)]))"
  by (simp add: Query_applied [OF assms] AddClause_Where_Expression where_exprs_wrap_where)

lemma Query_marker:
  assumes "\<not> Unscoped stmt"
  shows "Clauses (SoftDeleteQueryClause_ModifyStatement sd stmt) ''soft_delete_enabled'' \<noteq> None"
proof (cases "Clauses stmt ''soft_delete_enabled'' = None")
  case True
  then show ?thesis by (simp add: Query_applied [OF True assms])
next
  case False
  then show ?thesis by (simp add: Query_skipped)
qed

lemma Query_idem:
  "SoftDeleteQueryClause_ModifyStatement sd' (SoftDeleteQueryClause_ModifyStatement sd stmt) =
     SoftDeleteQueryClause_ModifyStatement sd stmt"
proof (cases "Clauses stmt ''soft_delete_enabled'' = None \<and> \<not> Unscoped stmt")
  case True
  then have "Clauses (SoftDeleteQueryClause_ModifyStatement sd stmt) ''soft_delete_enabled'' \<noteq> None"
    by (simp add: Query_marker)
  then show ?thesis by (simp add: Query_skipped)
next
  case False
  then have "SoftDeleteQueryClause_ModifyStatement sd stmt = stmt"
    by (auto simp: Query_skipped)
  with False show ?thesis by (auto simp: Query_skipped)
qed



lemma where_exprs_AddClause_Where:
  "where_exprs (AddClause (Where exprs) stmt) = where_exprs stmt @ exprs"
  by (auto simp: AddClause_def where_exprs_def Let_def zero_Clause_def
      split: option.splits expression.splits)

lemma where_exprs_cong:
  "Clauses s ''WHERE'' = Clauses s' ''WHERE'' \<Longrightarrow> where_exprs s = where_exprs s'"
  by (simp add: where_exprs_def)



lemma SetColumn_frame:
  "Clauses (SetColumn n v f stmt) = Clauses stmt"
  "Unscoped (SetColumn n v f stmt) = Unscoped stmt"
  "SQL (SetColumn n v f stmt) = SQL stmt"
  "Schema (SetColumn n v f stmt) = Schema stmt"
  "Table (SetColumn n v f stmt) = Table stmt"
  "ReflectValue (SetColumn n v f stmt) = ReflectValue stmt"
  "Dest (SetColumn n v f stmt) = Dest stmt"
  "Model (SetColumn n v f stmt) = Model stmt"
  by (simp_all add: SetColumn_def)

lemma Delete_assign_frame:
  "Unscoped (Delete_assign sd stmt) = Unscoped stmt"
  "SQL (Delete_assign sd stmt) = SQL stmt"
  "Schema (Delete_assign sd stmt) = Schema stmt"
  "Table (Delete_assign sd stmt) = Table stmt"
  "ReflectValue (Delete_assign sd stmt) = ReflectValue stmt"
  "Dest (Delete_assign sd stmt) = Dest stmt"
  "Model (Delete_assign sd stmt) = Model stmt"
  "k \<noteq> ''SET'' \<Longrightarrow> Clauses (Delete_assign sd stmt) k = Clauses stmt k"
  by (simp_all add: Delete_assign_def Let_def AddClause_frame AddClause_other SetColumn_frame
      split: option.splits)



lemma add_identity_frame:
  "Unscoped (add_identity h sc rv stmt) = Unscoped stmt"
  "SQL (add_identity h sc rv stmt) = SQL stmt"
  "Schema (add_identity h sc rv stmt) = Schema stmt"
  "Table (add_identity h sc rv stmt) = Table stmt"
  "ReflectValue (add_identity h sc rv stmt) = ReflectValue stmt"
  "Dest (add_identity h sc rv stmt) = Dest stmt"
  "Model (add_identity h sc rv stmt) = Model stmt"
  "SetColumnCalls (add_identity h sc rv stmt) = SetColumnCalls stmt"
  "k \<noteq> ''WHERE'' \<Longrightarrow> Clauses (add_identity h sc rv stmt) k = Clauses stmt k"
  by (simp_all add: add_identity_def Let_def AddClause_frame AddClause_other split: prod.splits)

lemma where_exprs_add_identity:
  "Schema stmt = Some sc \<Longrightarrow>
     where_exprs (add_identity h sc rv stmt) = where_exprs stmt @ identity_predicate h stmt rv"
  by (simp add: add_identity_def identity_predicate_def Let_def where_exprs_AddClause_Where
      split: prod.splits)

lemma identity_predicate_cong:
  "Schema s = Schema s' \<Longrightarrow> Table s = Table s' \<Longrightarrow> SetColumnCalls s = SetColumnCalls s' \<Longrightarrow>
     identity_predicate h s rv = identity_predicate h s' rv"
  by (simp add: identity_predicate_def split: option.splits)


lemma where_exprs_Delete_identity:
  "where_exprs (Delete_identity h stmt) =
     where_exprs stmt @ identity_predicate h stmt (ReflectValue stmt) @
     (if CanAddr (ReflectValue stmt) \<and> Dest stmt \<noteq> Model stmt \<and> Model stmt \<noteq> NilObj
      then identity_predicate h stmt (reflect_ValueOf (Model stmt)) else [])"
proof (cases "Schema stmt")
  case None
  then show ?thesis by (simp add: Delete_identity_def identity_predicate_def)
next
  case (Some sc)
  let ?s1 = "add_identity h sc (ReflectValue stmt) stmt"
  have s1: "where_exprs ?s1 = where_exprs stmt @ identity_predicate h stmt (ReflectValue stmt)"
    using Some by (rule where_exprs_add_identity)
  have "identity_predicate h ?s1 rv = identity_predicate h stmt rv" for rv
    by (rule identity_predicate_cong) (simp_all add: add_identity_frame)
  moreover have "Schema ?s1 = Some sc"
    using Some by (simp add: add_identity_frame)
  ultimately have s2: "where_exprs (add_identity h sc rv ?s1) =
      where_exprs ?s1 @ identity_predicate h stmt rv" for rv
    by (simp add: where_exprs_add_identity)
  show ?thesis
    using Some by (simp add: Delete_identity_def Let_def add_identity_frame s1 s2)
qed







section \<open>The storage conversion\<close>

text \<open>
  C9. \<^verbatim>\<open>Scan\<close> returns an error exactly when the stored value is not a
  \<^verbatim>\<open>bool\<close>; on a \<^verbatim>\<open>bool\<close> it succeeds, and \<^verbatim>\<open>Value\<close> of the scanned
  flag gives the same \<^verbatim>\<open>bool\<close> back; \<^verbatim>\<open>Value\<close> never returns an error.
\<close>

theorem scan_value_roundtrip:
  "(snd (Scan b v) \<noteq> None) = (\<forall>x. v \<noteq> Bool x)
   \<and> Scan b (Bool x) = (x, None)
   \<and> Value (fst (Scan b (Bool x))) = (Bool x, None)
   \<and> snd (Value d) = None"
  by (cases v) (auto simp: Value_def)

text \<open>
  C10. When the stored value is not a \<^verbatim>\<open>bool\<close>, \<^verbatim>\<open>Scan\<close> returns the error
  and the flag keeps the value it had.
\<close>

theorem scan_error_keeps_receiver:
  "\<forall>x. v \<noteq> Bool x \<Longrightarrow> Scan b v = (b, Some (Error ''Invalid data type for DeletedAt''))"
  by (cases v) auto

theorem scan_error_keeps_receiver_witness:
  "(\<forall>x. String ''deleted'' \<noteq> Bool x)
   \<and> Scan True (String ''deleted'') = (True, Some (Error ''Invalid data type for DeletedAt''))
   \<and> Scan False Nil = (False, Some (Error ''Invalid data type for DeletedAt''))"
  using scan_error_keeps_receiver [of "String ''deleted''" True]
    scan_error_keeps_receiver [of Nil False]
  by simp

section \<open>The query filter and the update filter\<close>

text \<open>
  C1. On a statement that has no \<^verbatim>\<open>soft_delete_enabled\<close> clause and is not
  unscoped, the query filter leaves a WHERE clause whose expressions are the existing
  ones (wrapped in one \<open>AndConditions\<close> when one of them is a single-or) followed by one
  new condition on the flag column of the current table: equality to \<open>FlagActived\<close>, or
  equality to nil (IS NULL) when the field's default value is \<^verbatim>\<open>"null"\<close>.
\<close>

theorem query_filter_appends_condition:
  assumes "Clauses stmt ''soft_delete_enabled'' = None" and "\<not> Unscoped stmt"
  shows "map_option Expression
           (Clauses (SoftDeleteQueryClause_ModifyStatement sd stmt) ''WHERE'') =
         Some (Where
           ((if list_ex is_single_or (where_exprs stmt) then [AndConditions (where_exprs stmt)]
             else where_exprs stmt) @
            [Eq (Column CurrentTable (DBName (SoftDeleteQueryClause.Field sd)))
                (if DefaultValue (SoftDeleteQueryClause.Field sd) = ''null'' then Nil
                 else Bool FlagActived)]))"
  using Query_where [OF assms] by (simp add: flag_condition_def)

theorem query_filter_appends_condition_witness:
  "Clauses (where_stmt [Expr ''id = 7'']) ''soft_delete_enabled'' = None
   \<and> \<not> Unscoped (where_stmt [Expr ''id = 7''])
   \<and> map_option Expression
        (Clauses (SoftDeleteQueryClause_ModifyStatement query_clause (where_stmt [Expr ''id = 7'']))
           ''WHERE'') =
       Some (Where [Expr ''id = 7'', Eq (Column ''~~~ct~~~'' ''deleted_at'') (Bool False)])
   \<and> map_option Expression
        (Clauses (SoftDeleteQueryClause_ModifyStatement
                    \<lparr>SoftDeleteQueryClause.Field = deleted_at_null\<rparr> (where_stmt [Expr ''id = 7'']))
           ''WHERE'') =
       Some (Where [Expr ''id = 7'', Eq (Column ''~~~ct~~~'' ''deleted_at'') Nil])"
  using query_filter_appends_condition [of "where_stmt [Expr ''id = 7'']" query_clause]
    query_filter_appends_condition [of "where_stmt [Expr ''id = 7'']"
      "\<lparr>SoftDeleteQueryClause.Field = deleted_at_null\<rparr>"]
  by (simp add: where_stmt_def delete_stmt_def zero_Clause_def query_clause_def deleted_at_def
      deleted_at_null_def where_exprs_def CurrentTable_def FlagActived_def)




text \<open>
  C8. After the query filter has run on a statement that is not unscoped, the clause
  \<^verbatim>\<open>soft_delete_enabled\<close> is present. On every statement, running the query filter
  again, the update filter, or the query filter step of the delete rewriter (for any
  field) changes nothing. On an unscoped statement the marker is not set, as the example
  after the theorem shows.
\<close>

theorem query_filter_idempotent:
  "(\<not> Unscoped stmt \<longrightarrow>
      Clauses (SoftDeleteQueryClause_ModifyStatement sd stmt) ''soft_delete_enabled'' \<noteq> None)
   \<and> SoftDeleteQueryClause_ModifyStatement sd (SoftDeleteQueryClause_ModifyStatement sd stmt) =
       SoftDeleteQueryClause_ModifyStatement sd stmt
   \<and> SoftDeleteUpdateClause_ModifyStatement uc (SoftDeleteQueryClause_ModifyStatement sd stmt) =
       SoftDeleteQueryClause_ModifyStatement sd stmt
   \<and> SoftDeleteQueryClause_ModifyStatement
       \<lparr>SoftDeleteQueryClause.Field = SoftDeleteDeleteClause.Field dc\<rparr>
       (SoftDeleteQueryClause_ModifyStatement sd stmt) =
       SoftDeleteQueryClause_ModifyStatement sd stmt"
  by (simp add: Query_marker Query_idem SoftDeleteUpdateClause_ModifyStatement_def)

theorem query_filter_idempotent_witness:
  "\<not> Unscoped delete_stmt
   \<and> Clauses (SoftDeleteQueryClause_ModifyStatement query_clause delete_stmt)
        ''soft_delete_enabled'' \<noteq> None
   \<and> SoftDeleteQueryClause_ModifyStatement query_clause
        (SoftDeleteQueryClause_ModifyStatement query_clause delete_stmt) =
       SoftDeleteQueryClause_ModifyStatement query_clause delete_stmt"
  using query_filter_idempotent [of delete_stmt query_clause update_clause "delete_clause None"]
  by (simp add: delete_stmt_def)

theorem unscoped_marker_counterexample:
  "Unscoped unscoped_stmt
   \<and> Clauses (SoftDeleteQueryClause_ModifyStatement query_clause unscoped_stmt)
        ''soft_delete_enabled'' = None"
  by (simp add: SoftDeleteQueryClause_ModifyStatement_def unscoped_stmt_def delete_stmt_def)

text \<open>
  C6. The update filter is the query filter for the same field when the SQL text is
  empty and the statement is not unscoped, and changes nothing otherwise.
\<close>

theorem update_filter_is_query_filter:
  "SoftDeleteUpdateClause_ModifyStatement sd stmt =
     (if SQL stmt = [] \<and> \<not> Unscoped stmt
      then SoftDeleteQueryClause_ModifyStatement
             \<lparr>SoftDeleteQueryClause.Field = SoftDeleteUpdateClause.Field sd\<rparr> stmt
      else stmt)"
  by (simp add: SoftDeleteUpdateClause_ModifyStatement_def)

text \<open>
  C5. On an unscoped statement each of the three hooks returns the statement as it was.
\<close>

theorem unscoped_unchanged:
  assumes "Unscoped stmt"
  shows "SoftDeleteQueryClause_ModifyStatement qc stmt = stmt
       \<and> SoftDeleteUpdateClause_ModifyStatement uc stmt = stmt
       \<and> SoftDeleteDeleteClause_ModifyStatement h dc stmt = stmt"
  using assms
  by (simp add: SoftDeleteQueryClause_ModifyStatement_def SoftDeleteUpdateClause_ModifyStatement_def
      SoftDeleteDeleteClause_ModifyStatement_def)

theorem unscoped_unchanged_witness:
  "Unscoped unscoped_stmt
   \<and> SoftDeleteQueryClause_ModifyStatement query_clause unscoped_stmt = unscoped_stmt
   \<and> SoftDeleteUpdateClause_ModifyStatement update_clause unscoped_stmt = unscoped_stmt
   \<and> SoftDeleteDeleteClause_ModifyStatement example_host (delete_clause None) unscoped_stmt =
       unscoped_stmt"
  using unscoped_unchanged [of unscoped_stmt query_clause update_clause example_host "delete_clause None"]
  by (simp add: unscoped_stmt_def)

section \<open>The delete rewriter\<close>




text \<open>
  C4. While rewriting a delete, the WHERE expressions before the query filter runs are
  the existing ones, then the IN predicate of the identity values read from
  \<^verbatim>\<open>stmt.ReflectValue\<close>, then, when that value is addressable, the destination
  differs from the model and the model is not nil, the IN predicate of the identity
  values read from the model. A source with no identity values contributes no predicate.
\<close>

theorem delete_identity_predicates:
  assumes "SQL stmt = []" and "\<not> Unscoped stmt"
  shows "SoftDeleteDeleteClause_ModifyStatement h sd stmt =
           Build h (Callback_Update_Clauses h)
             (AddClauseIfNotExists (Update [] (table.Table [] [] False))
                (SoftDeleteQueryClause_ModifyStatement
                   \<lparr>SoftDeleteQueryClause.Field = SoftDeleteDeleteClause.Field sd\<rparr>
                   (Delete_identity h (Delete_assign sd stmt))))
       \<and> where_exprs (Delete_identity h (Delete_assign sd stmt)) =
           where_exprs stmt @
           identity_predicate h (Delete_assign sd stmt) (ReflectValue stmt) @
           (if CanAddr (ReflectValue stmt) \<and> Dest stmt \<noteq> Model stmt \<and> Model stmt \<noteq> NilObj
            then identity_predicate h (Delete_assign sd stmt) (reflect_ValueOf (Model stmt))
            else [])"
proof -
  have "where_exprs (Delete_assign sd stmt) = where_exprs stmt"
    by (rule where_exprs_cong) (simp add: Delete_assign_frame)
  then have "where_exprs (Delete_identity h (Delete_assign sd stmt)) =
      where_exprs stmt @
      identity_predicate h (Delete_assign sd stmt) (ReflectValue stmt) @
      (if CanAddr (ReflectValue stmt) \<and> Dest stmt \<noteq> Model stmt \<and> Model stmt \<noteq> NilObj
       then identity_predicate h (Delete_assign sd stmt) (reflect_ValueOf (Model stmt))
       else [])"
    by (simp add: where_exprs_Delete_identity Delete_assign_frame)
  moreover have "SoftDeleteDeleteClause_ModifyStatement h sd stmt =
      Build h (Callback_Update_Clauses h)
        (AddClauseIfNotExists (Update [] (table.Table [] [] False))
           (SoftDeleteQueryClause_ModifyStatement
              \<lparr>SoftDeleteQueryClause.Field = SoftDeleteDeleteClause.Field sd\<rparr>
              (Delete_identity h (Delete_assign sd stmt))))"
    using assms by (simp add: SoftDeleteDeleteClause_ModifyStatement_def Delete_rewrite_def)
  ultimately show ?thesis by (intro conjI)
qed

theorem delete_identity_predicates_witness:
  "SQL delete_stmt = [] \<and> \<not> Unscoped delete_stmt
   \<and> where_exprs (Delete_identity example_host
        (Delete_assign (delete_clause None) (delete_stmt\<lparr>Model := Ref 2\<rparr>))) =
       [IN (OneColumn (Column ''users'' ''id'')) [Int64 7],
        IN (OneColumn (Column ''users'' ''id'')) [Int64 8, Int64 9]]
   \<and> where_exprs (Delete_identity example_host
        (Delete_assign (delete_clause None) (delete_stmt\<lparr>Model := Ref 3\<rparr>))) =
       [IN (OneColumn (Column ''users'' ''id'')) [Int64 7]]
   \<and> where_exprs (Delete_identity example_host
        (Delete_assign (delete_clause None) delete_stmt)) =
       [IN (OneColumn (Column ''users'' ''id'')) [Int64 7]]"
  using delete_identity_predicates [of "delete_stmt\<lparr>Model := Ref 2\<rparr>" example_host "delete_clause None"]
    delete_identity_predicates [of "delete_stmt\<lparr>Model := Ref 3\<rparr>" example_host "delete_clause None"]
    delete_identity_predicates [of delete_stmt example_host "delete_clause None"]
  by (simp add: delete_stmt_def users_schema_def delete_clause_def deleted_at_def example_host_def
      zero_Clause_def where_exprs_def identity_predicate_def reflect_ValueOf_def
      Delete_assign_def AddClause_def SetColumn_def Let_def)




end
